theory Spec2Isabelle
  imports Main
begin

section \<open>Values exchanged with the platform\<close>

text \<open>
  The value \<^verbatim>\<open>response.json()\<close> resolves to. An object is kept as the list of its
  members; a property read takes the first member of that name. Numbers are restricted to
  integers: the handler only ever tests a number for being zero.
\<close>

datatype json =
    JNull
  | JBool bool
  | JNum int
  | JStr string
  | JArr "json list"
  | JObj "(string \<times> json) list"

text \<open>What a \<^verbatim>\<open>throw\<close> or a rejected promise carries.\<close>

datatype js_error =
    TypeError
  | SyntaxError
  | NetworkError
  | Error string
  | OpenAIError string

text \<open>
  The body of a \<^verbatim>\<open>Response\<close>: either the text that serialises a JSON value
  (\<^verbatim>\<open>JSON.stringify\<close> writes it, \<^verbatim>\<open>response.json()\<close> reads it back), or any other text,
  on which \<^verbatim>\<open>response.json()\<close> rejects.
\<close>

datatype body =
    JsonText json
  | RawText string

text \<open>
  A \<^verbatim>\<open>Response\<close>, received from upstream or built by a handler; \<open>headers\<close> are the
  headers it was given.
\<close>

record Response =
  status :: nat
  statusText :: string
  headers :: "(string \<times> string) list"
  body :: body

record fetch_request =
  url :: string
  request_headers :: "(string \<times> string) list"

text \<open>\<^verbatim>\<open>process.env\<close>: a variable that is not set reads as \<^verbatim>\<open>undefined\<close>.\<close>

type_synonym process_env = "string \<rightharpoonup> string"

section \<open>types/openai.ts\<close>

record OpenAIModel =
  id' :: string
  name :: string
  maxLength :: int
  tokenLimit :: int

datatype OpenAIModelID =
    GPT_3_5
  | GPT_4
  | LLAMA_3_1_8B
  | LLAMA_3_3_70B
  | GEMMA2_9B
  | COMPOUND_BETA

text \<open>The string each member of the enum stands for.\<close>

fun OpenAIModelID_value :: "OpenAIModelID \<Rightarrow> string" where
  "OpenAIModelID_value GPT_3_5 = ''gpt-3.5-turbo''"
| "OpenAIModelID_value GPT_4 = ''gpt-4''"
| "OpenAIModelID_value LLAMA_3_1_8B = ''llama-3.1-8b-instant''"
| "OpenAIModelID_value LLAMA_3_3_70B = ''llama-3.3-70b-versatile''"
| "OpenAIModelID_value GEMMA2_9B = ''gemma2-9b-it''"
| "OpenAIModelID_value COMPOUND_BETA = ''compound-beta''"

text \<open>\<^verbatim>\<open>Object.entries(OpenAIModelID)\<close>: the members in declaration order.\<close>

definition OpenAIModelID_entries :: "OpenAIModelID list" where
  "OpenAIModelID_entries =
     [GPT_3_5, GPT_4, LLAMA_3_1_8B, LLAMA_3_3_70B, GEMMA2_9B, COMPOUND_BETA]"

definition fallbackModelID :: OpenAIModelID where
  "fallbackModelID = LLAMA_3_1_8B"

fun OpenAIModels :: "OpenAIModelID \<Rightarrow> OpenAIModel" where
  "OpenAIModels GPT_3_5 =
     \<lparr>id' = OpenAIModelID_value GPT_3_5, name = ''GPT-3.5'',
      maxLength = 12000, tokenLimit = 4000\<rparr>"
| "OpenAIModels GPT_4 =
     \<lparr>id' = OpenAIModelID_value GPT_4, name = ''GPT-4'',
      maxLength = 24000, tokenLimit = 8000\<rparr>"
| "OpenAIModels LLAMA_3_1_8B =
     \<lparr>id' = OpenAIModelID_value LLAMA_3_1_8B, name = ''Llama 3.1 8B (Fast)'',
      maxLength = 120000, tokenLimit = 131072\<rparr>"
| "OpenAIModels LLAMA_3_3_70B =
     \<lparr>id' = OpenAIModelID_value LLAMA_3_3_70B, name = ''Llama 3.3 70B (Powerful)'',
      maxLength = 120000, tokenLimit = 131072\<rparr>"
| "OpenAIModels GEMMA2_9B =
     \<lparr>id' = OpenAIModelID_value GEMMA2_9B, name = ''Gemma 2 9B'',
      maxLength = 24000, tokenLimit = 8192\<rparr>"
| "OpenAIModels COMPOUND_BETA =
     \<lparr>id' = OpenAIModelID_value COMPOUND_BETA, name = ''Compound Beta (Groq)'',
      maxLength = 120000, tokenLimit = 131072\<rparr>"

section \<open>utils/app/const.ts\<close>

text \<open>\<^verbatim>\<open>process.env.OPENAI_API_HOST || 'https://api.openai.com'\<close>: an empty string is falsy.\<close>

definition OPENAI_API_HOST :: "process_env \<Rightarrow> string" where
  "OPENAI_API_HOST env =
     (case env ''OPENAI_API_HOST'' of
        None \<Rightarrow> ''https://api.openai.com''
      | Some h \<Rightarrow> if h = [] then ''https://api.openai.com'' else h)"

section \<open>JavaScript operations the models handler uses\<close>

text \<open>Truthiness of a parsed JSON value.\<close>

fun truthy :: "json \<Rightarrow> bool" where
  "truthy JNull = False"
| "truthy (JBool b) = b"
| "truthy (JNum n) = (n \<noteq> 0)"
| "truthy (JStr s) = (s \<noteq> [])"
| "truthy (JArr xs) = True"
| "truthy (JObj kvs) = True"

text \<open>
  A property read \<^verbatim>\<open>v.p\<close> for a name \<open>p\<close> that no prototype defines (such as
  \<^verbatim>\<open>data\<close> and \<^verbatim>\<open>id\<close>): a \<^verbatim>\<open>TypeError\<close> on \<^verbatim>\<open>null\<close>, the member of an object,
  and \<^verbatim>\<open>undefined\<close> (\<open>None\<close>) otherwise.
\<close>

fun property :: "json \<Rightarrow> string \<Rightarrow> js_error + json option" where
  "property JNull p = Inl TypeError"
| "property (JObj kvs) p = Inr (map_of kvs p)"
| "property v p = Inr None"

text \<open>\<^verbatim>\<open>String.prototype.startsWith\<close> and \<^verbatim>\<open>String.prototype.includes\<close>.\<close>

fun startsWith :: "string \<Rightarrow> string \<Rightarrow> bool" where
  "startsWith s [] = True"
| "startsWith [] (c # cs) = False"
| "startsWith (d # ds) (c # cs) = (d = c \<and> startsWith ds cs)"

fun includes_string :: "string \<Rightarrow> string \<Rightarrow> bool" where
  "includes_string [] n = (n = [])"
| "includes_string (c # cs) n = (startsWith (c # cs) n \<or> includes_string cs n)"

text \<open>
  The method call \<^verbatim>\<open>v.includes(n)\<close> on the value of \<^verbatim>\<open>model.id\<close>, for a string \<open>n\<close>:
  the substring test on a string, the element test on an array, and a \<^verbatim>\<open>TypeError\<close>
  where the value has no such method (\<^verbatim>\<open>undefined\<close>, \<^verbatim>\<open>null\<close>, a number, a
  boolean, an object).
\<close>

fun call_includes :: "json option \<Rightarrow> string \<Rightarrow> js_error + bool" where
  "call_includes (Some (JStr s)) n = Inr (includes_string s n)"
| "call_includes (Some (JArr xs)) n = Inr (JStr n \<in> set xs)"
| "call_includes v n = Inl TypeError"

text \<open>\<^verbatim>\<open>s.replace(/-/g, ' ')\<close>.\<close>

definition replace_hyphens :: "string \<Rightarrow> string" where
  "replace_hyphens s = map (\<lambda>c. if c = CHR ''-'' then CHR '' '' else c) s"

text \<open>
  The class \<^verbatim>\<open>\w\<close> (ASCII letters, digits and the underscore) and \<^verbatim>\<open>toUpperCase\<close>
  on one character of that class.
\<close>

definition is_word_char :: "char \<Rightarrow> bool" where
  "is_word_char c =
     (let n = (of_char c :: nat)
      in (97 \<le> n \<and> n \<le> 122) \<or> (65 \<le> n \<and> n \<le> 90) \<or> (48 \<le> n \<and> n \<le> 57) \<or> n = 95)"

definition toUpperCase :: "char \<Rightarrow> char" where
  "toUpperCase c =
     (let n = (of_char c :: nat)
      in if 97 \<le> n \<and> n \<le> 122 then char_of (n - 32) else c)"

text \<open>
  \<^verbatim>\<open>s.replace(/\b\w/g, (l) => l.toUpperCase())\<close>: a word character is replaced when no
  word character stands before it. The flag says whether the previous character was one.
\<close>

fun capitalize :: "bool \<Rightarrow> string \<Rightarrow> string" where
  "capitalize prev [] = []"
| "capitalize prev (c # cs) =
     (if is_word_char c \<and> \<not> prev then toUpperCase c else c) # capitalize (is_word_char c) cs"

section \<open>pages/api/models.ts\<close>

text \<open>\<^verbatim>\<open>const modelsData = json.data || json\<close>.\<close>

definition modelsData :: "json \<Rightarrow> js_error + json" where
  "modelsData json =
     (case property json ''data'' of
        Inl e \<Rightarrow> Inl e
      | Inr None \<Rightarrow> Inr json
      | Inr (Some d) \<Rightarrow> Inr (if truthy d then d else json))"

text \<open>
  \<^verbatim>\<open>ms.some((model) => model.id === value)\<close> on the elements of an array: the scan stops
  at the first match, and a \<^verbatim>\<open>null\<close> element reached before one throws.
\<close>

fun some_id :: "json list \<Rightarrow> string \<Rightarrow> js_error + bool" where
  "some_id [] v = Inr False"
| "some_id (m # ms) v =
     (case property m ''id'' of
        Inl e \<Rightarrow> Inl e
      | Inr i \<Rightarrow> if i = Some (JStr v) then Inr True else some_id ms v)"

text \<open>\<^verbatim>\<open>modelsData.some(...)\<close>: only an array has the method.\<close>

fun modelsData_some :: "json \<Rightarrow> string \<Rightarrow> js_error + bool" where
  "modelsData_some (JArr ms) v = some_id ms v"
| "modelsData_some md v = Inl TypeError"

text \<open>
  The loop over \<^verbatim>\<open>Object.entries(OpenAIModelID)\<close>, pushing onto \<open>models\<close>. The second
  conjunct of its test, \<^verbatim>\<open>OpenAIModels[value]\<close>, is an object for every member of the
  enum and so always truthy.
\<close>

fun predefined :: "json \<Rightarrow> OpenAIModelID list \<Rightarrow> OpenAIModel list \<Rightarrow> js_error + OpenAIModel list" where
  "predefined md [] models = Inr models"
| "predefined md (v # vs) models =
     (case modelsData_some md (OpenAIModelID_value v) of
        Inl e \<Rightarrow> Inl e
      | Inr modelExists \<Rightarrow>
          predefined md vs (if modelExists then models @ [OpenAIModels v] else models))"

text \<open>The callback of \<^verbatim>\<open>filter\<close>; \<^verbatim>\<open>||\<close> evaluates its right operand only when the left is false.\<close>

definition or_else :: "js_error + bool \<Rightarrow> js_error + bool \<Rightarrow> js_error + bool" where
  "or_else a b = (case a of Inl e \<Rightarrow> Inl e | Inr True \<Rightarrow> Inr True | Inr False \<Rightarrow> b)"

definition is_available :: "json \<Rightarrow> js_error + bool" where
  "is_available model =
     (case property model ''id'' of
        Inl e \<Rightarrow> Inl e
      | Inr i \<Rightarrow>
          or_else (call_includes i ''llama'')
            (or_else (call_includes i ''gemma'')
              (or_else (call_includes i ''compound'') (call_includes i ''gpt''))))"

fun filter_available :: "json list \<Rightarrow> js_error + json list" where
  "filter_available [] = Inr []"
| "filter_available (m # ms) =
     (case is_available m of
        Inl e \<Rightarrow> Inl e
      | Inr keep \<Rightarrow>
          (case filter_available ms of
             Inl e \<Rightarrow> Inl e
           | Inr rest \<Rightarrow> Inr (if keep then m # rest else rest)))"

text \<open>The display name computed for a model that is not in the table.\<close>

definition dynamic_name :: "string \<Rightarrow> string" where
  "dynamic_name i = capitalize False (replace_hyphens i)"

text \<open>
  The callback of \<^verbatim>\<open>map\<close>: \<^verbatim>\<open>model.id.replace\<close> exists only when \<^verbatim>\<open>model.id\<close> is a
  string.
\<close>

definition to_dynamic_model :: "json \<Rightarrow> js_error + OpenAIModel" where
  "to_dynamic_model model =
     (case property model ''id'' of
        Inl e \<Rightarrow> Inl e
      | Inr (Some (JStr i)) \<Rightarrow>
          Inr \<lparr>id' = i, name = dynamic_name i, maxLength = 120000, tokenLimit = 131072\<rparr>
      | Inr _ \<Rightarrow> Inl TypeError)"

fun map_dynamic :: "json list \<Rightarrow> js_error + OpenAIModel list" where
  "map_dynamic [] = Inr []"
| "map_dynamic (m # ms) =
     (case to_dynamic_model m of
        Inl e \<Rightarrow> Inl e
      | Inr x \<Rightarrow> (case map_dynamic ms of Inl e \<Rightarrow> Inl e | Inr xs \<Rightarrow> Inr (x # xs)))"

text \<open>\<^verbatim>\<open>modelsData.filter(...).slice(0, 5).map(...)\<close>; only an array has \<^verbatim>\<open>filter\<close>.\<close>

fun availableModels :: "json \<Rightarrow> js_error + OpenAIModel list" where
  "availableModels (JArr ms) =
     (case filter_available ms of
        Inl e \<Rightarrow> Inl e
      | Inr kept \<Rightarrow> map_dynamic (take 5 kept))"
| "availableModels md = Inl TypeError"

text \<open>From \<^verbatim>\<open>const models = []\<close> to the array handed to \<^verbatim>\<open>JSON.stringify\<close>.\<close>

definition collect_models :: "json \<Rightarrow> js_error + OpenAIModel list" where
  "collect_models md =
     (case predefined md OpenAIModelID_entries [] of
        Inl e \<Rightarrow> Inl e
      | Inr models \<Rightarrow>
          if length models = 0
          then (case availableModels md of Inl e \<Rightarrow> Inl e | Inr dyn \<Rightarrow> Inr (models @ dyn))
          else Inr models)"

text \<open>\<^verbatim>\<open>JSON.stringify\<close> of an array of models, as the JSON value the text denotes.\<close>

definition model_json :: "OpenAIModel \<Rightarrow> json" where
  "model_json m =
     JObj [(''id'', JStr (id' m)), (''name'', JStr (name m)),
           (''maxLength'', JNum (maxLength m)), (''tokenLimit'', JNum (tokenLimit m))]"

definition stringify :: "OpenAIModel list \<Rightarrow> body" where
  "stringify models = JsonText (JArr (map model_json models))"

definition fallbackModels :: "OpenAIModel list" where
  "fallbackModels =
     [\<lparr>id' = ''llama-3.1-8b-instant'', name = ''Llama 3.1 8B (Fast)'',
       maxLength = 120000, tokenLimit = 131072\<rparr>,
      \<lparr>id' = ''llama-3.3-70b-versatile'', name = ''Llama 3.3 70B (Powerful)'',
       maxLength = 120000, tokenLimit = 131072\<rparr>,
      \<lparr>id' = ''gemma2-9b-it'', name = ''Gemma 2 9B'',
       maxLength = 24000, tokenLimit = 8192\<rparr>]"

text \<open>\<^verbatim>\<open>response.json()\<close>: rejects unless the body is JSON text.\<close>

fun response_json :: "Response \<Rightarrow> js_error + json" where
  "response_json r = (case body r of JsonText j \<Rightarrow> Inr j | RawText s \<Rightarrow> Inl SyntaxError)"

text \<open>
  The request sent upstream. \<open>key\<close> is the \<^verbatim>\<open>key\<close> member of the request body
  (\<open>None\<close> when the body has none); a variable of \<^verbatim>\<open>process.env\<close> that is not set is
  written \<^verbatim>\<open>undefined\<close> by the template literal.
\<close>

definition bearer :: "process_env \<Rightarrow> string option \<Rightarrow> string" where
  "bearer env key =
     ''Bearer '' @
       (if key \<noteq> None \<and> key \<noteq> Some []
        then the key
        else (case env ''OPENAI_API_KEY'' of None \<Rightarrow> ''undefined'' | Some k \<Rightarrow> k))"

definition models_request :: "process_env \<Rightarrow> string option \<Rightarrow> fetch_request" where
  "models_request env key =
     \<lparr>url = OPENAI_API_HOST env @ ''/v1/models'',
      request_headers =
        [(''Content-Type'', ''application/json''), (''Authorization'', bearer env key)] @
        (case env ''OPENAI_ORGANIZATION'' of
           None \<Rightarrow> []
         | Some org \<Rightarrow> if org = [] then [] else [(''OpenAI-Organization'', org)])\<rparr>"

text \<open>The statements of the \<^verbatim>\<open>try\<close> block that follow \<^verbatim>\<open>await fetch(...)\<close>.\<close>

definition after_fetch :: "Response \<Rightarrow> js_error + Response" where
  "after_fetch response =
     (if status response = 401
      then Inr \<lparr>status = 500, statusText = [], headers = headers response,
                body = body response\<rparr>
      else if status response \<noteq> 200
      then Inl (Error ''API returned an error'')
      else
        (case response_json response of
           Inl e \<Rightarrow> Inl e
         | Inr json \<Rightarrow>
             (case modelsData json of
                Inl e \<Rightarrow> Inl e
              | Inr md \<Rightarrow>
                  (case collect_models md of
                     Inl e \<Rightarrow> Inl e
                   | Inr models \<Rightarrow>
                       Inr \<lparr>status = 200, statusText = [], headers = [],
                            body = stringify models\<rparr>))))"

text \<open>
  The \<^verbatim>\<open>try\<close> block. The first component of the result lists the requests sent
  upstream.
  \<open>req\<close> is what \<^verbatim>\<open>const { key } = await req.json()\<close> gives: an error when the body is
  not JSON or is \<^verbatim>\<open>null\<close>, the \<^verbatim>\<open>key\<close> member otherwise.
\<close>

definition try_block ::
  "process_env \<Rightarrow> (fetch_request \<Rightarrow> js_error + Response) \<Rightarrow> js_error + string option
     \<Rightarrow> fetch_request list \<times> (js_error + Response)" where
  "try_block env fetch req =
     (case req of
        Inl e \<Rightarrow> ([], Inl e)
      | Inr key \<Rightarrow>
          ([models_request env key],
           (case fetch (models_request env key) of
              Inl e \<Rightarrow> Inl e
            | Inr response \<Rightarrow> after_fetch response)))"

text \<open>The handler: the \<^verbatim>\<open>catch\<close> block answers every error with the fallback list.\<close>

definition handler ::
  "process_env \<Rightarrow> (fetch_request \<Rightarrow> js_error + Response) \<Rightarrow> js_error + string option
     \<Rightarrow> fetch_request list \<times> Response" where
  "handler env fetch req =
     (case try_block env fetch req of
        (sent, Inl error) \<Rightarrow>
          (sent, \<lparr>status = 200, statusText = [], headers = [],
                  body = stringify fallbackModels\<rparr>)
      | (sent, Inr response) \<Rightarrow> (sent, response))"

section \<open>pages/api/chat.ts\<close>

record Message =
  role :: string
  content :: string

text \<open>
  Modelled from the spec: the chat handler (\<^verbatim>\<open>pages/api/chat.ts\<close>) is not among the
  sources. The spec has it "trim the message list from the most recent message backward
  until the cumulative estimated token count plus a fixed safety margin stays under the
  selected model's token limit", and \<^verbatim>\<open>PROJECT_STRUCTURE.md\<close> quotes the test of the loop:
  \<^verbatim>\<open>if (tokenCount + tokens.length + 1000 > model.tokenLimit) { break; }\<close>.
  The first list holds the messages not yet visited, newest first; \<open>encode\<close> is the
  token estimator, \<open>tokenCount\<close> the running count and \<open>messagesToSend\<close> the messages
  kept so far, oldest first.
\<close>

fun trim_loop ::
  "(string \<Rightarrow> 'tok list) \<Rightarrow> OpenAIModel \<Rightarrow> Message list \<Rightarrow> nat \<Rightarrow> Message list
     \<Rightarrow> Message list" where
  "trim_loop encode model [] tokenCount messagesToSend = messagesToSend"
| "trim_loop encode model (message # older) tokenCount messagesToSend =
     (let tokens = encode (content message)
      in if int tokenCount + int (length tokens) + 1000 > tokenLimit model
         then messagesToSend
         else trim_loop encode model older (tokenCount + length tokens)
                (message # messagesToSend))"

text \<open>
  Modelled from the spec: the scan of the chat handler over the message list, from the
  last message to the first. \<open>tokenCount\<close> is the count the scan starts from, which the
  spec leaves open.
\<close>

definition trim_messages ::
  "(string \<Rightarrow> 'tok list) \<Rightarrow> OpenAIModel \<Rightarrow> nat \<Rightarrow> Message list \<Rightarrow> Message list" where
  "trim_messages encode model tokenCount messages =
     trim_loop encode model (rev messages) tokenCount []"

section \<open>Notions used to state the properties\<close>

text \<open>The estimated token count of a list of messages.\<close>

definition token_count :: "(string \<Rightarrow> 'tok list) \<Rightarrow> Message list \<Rightarrow> nat" where
  "token_count encode ms = sum_list (map (\<lambda>m. length (encode (content m))) ms)"

text \<open>An upstream that gives every request the same result.\<close>

definition always :: "js_error + Response \<Rightarrow> fetch_request \<Rightarrow> js_error + Response" where
  "always r q = r"

text \<open>A \<^verbatim>\<open>process.env\<close> in which no variable is set.\<close>

definition unset_env :: process_env where
  "unset_env = Map.empty"

text \<open>The id of an entry of the upstream list, when the entry has one that is a string.\<close>

definition upstream_id :: "json \<Rightarrow> string option" where
  "upstream_id m =
     (case property m ''id'' of Inr (Some (JStr i)) \<Rightarrow> Some i | _ \<Rightarrow> None)"

definition upstream_ids :: "json list \<Rightarrow> string list" where
  "upstream_ids ms = List.map_filter upstream_id ms"

text \<open>An id the dynamic branch accepts: it contains one of the four substrings.\<close>

definition available_id :: "string \<Rightarrow> bool" where
  "available_id i =
     (includes_string i ''llama'' \<or> includes_string i ''gemma'' \<or>
      includes_string i ''compound'' \<or> includes_string i ''gpt'')"

text \<open>
  A JSON object with exactly the members \<^verbatim>\<open>id\<close> and \<^verbatim>\<open>name\<close> (strings),
  \<^verbatim>\<open>maxLength\<close> and \<^verbatim>\<open>tokenLimit\<close> (numbers), and a JSON array of such objects.
\<close>

definition is_model_object :: "json \<Rightarrow> bool" where
  "is_model_object j =
     (case j of
        JObj [(k1, JStr i), (k2, JStr n), (k3, JNum a), (k4, JNum b)] \<Rightarrow>
          k1 = ''id'' \<and> k2 = ''name'' \<and> k3 = ''maxLength'' \<and> k4 = ''tokenLimit''
      | _ \<Rightarrow> False)"

definition is_models_array :: "body \<Rightarrow> bool" where
  "is_models_array b =
     (case b of JsonText (JArr ms) \<Rightarrow> list_all is_model_object ms | _ \<Rightarrow> False)"

section \<open>Properties\<close>

subsection \<open>Facts about the models handler\<close>

lemma upstream_ids_Cons:
  "upstream_ids (m # ms) =
     (case upstream_id m of None \<Rightarrow> upstream_ids ms | Some i \<Rightarrow> i # upstream_ids ms)"
  by (simp add: upstream_ids_def split: option.splits)

lemma some_id_upstream_ids:
  "JNull \<notin> set ms \<Longrightarrow> some_id ms v = Inr (v \<in> set (upstream_ids ms))"
proof (induction ms)
  case Nil
  show ?case by (simp add: upstream_ids_def)
next
  case (Cons m ms)
  from Cons.prems have m: "m \<noteq> JNull" and ms: "JNull \<notin> set ms" by auto
  from m obtain p where p: "property m ''id'' = Inr p"
    by (cases m) simp_all
  have "(p = Some (JStr v)) = (upstream_id m = Some v)"
    using p by (auto simp: upstream_id_def split: option.splits json.splits)
  with p Cons.IH [OF ms] show ?case
    by (auto simp: upstream_ids_Cons split: option.splits)
qed

lemma predefined_upstream_ids:
  "JNull \<notin> set ms \<Longrightarrow>
   predefined (JArr ms) vs acc =
     Inr (acc @ map OpenAIModels
                  (filter (\<lambda>v. OpenAIModelID_value v \<in> set (upstream_ids ms)) vs))"
  by (induction vs arbitrary: acc) (simp_all add: some_id_upstream_ids)



lemma is_available_string_id:
  "upstream_id m = Some i \<Longrightarrow> is_available m = Inr (available_id i)"
  by (auto simp: upstream_id_def is_available_def available_id_def or_else_def
      split: sum.splits option.splits json.splits bool.splits)

lemma to_dynamic_model_string_id:
  "upstream_id m = Some i \<Longrightarrow>
   to_dynamic_model m =
     Inr \<lparr>id' = i, name = dynamic_name i, maxLength = 120000, tokenLimit = 131072\<rparr>"
  by (auto simp: upstream_id_def to_dynamic_model_def
      split: sum.splits option.splits json.splits)

lemma filter_available_string_ids:
  "list_all (\<lambda>m. upstream_id m \<noteq> None) ms \<Longrightarrow>
   filter_available ms = Inr (filter (\<lambda>m. available_id (the (upstream_id m))) ms)"
  by (induction ms) (auto simp: is_available_string_id)

lemma map_dynamic_string_ids:
  "list_all (\<lambda>m. upstream_id m \<noteq> None) ms \<Longrightarrow>
   map_dynamic ms =
     Inr (map (\<lambda>m. \<lparr>id' = the (upstream_id m), name = dynamic_name (the (upstream_id m)),
                     maxLength = 120000, tokenLimit = 131072\<rparr>) ms)"
  by (induction ms) (auto simp: to_dynamic_model_string_id)

lemma upstream_ids_string_ids:
  "list_all (\<lambda>m. upstream_id m \<noteq> None) ms \<Longrightarrow>
   upstream_ids ms = map (\<lambda>m. the (upstream_id m)) ms"
  by (induction ms) (auto simp: upstream_ids_Cons upstream_ids_def)

lemma string_ids_not_null:
  "list_all (\<lambda>m. upstream_id m \<noteq> None) ms \<Longrightarrow> JNull \<notin> set ms"
  by (auto simp: list_all_iff upstream_id_def)

lemma availableModels_string_ids:
  assumes "list_all (\<lambda>m. upstream_id m \<noteq> None) ms"
  shows "availableModels (JArr ms) =
           Inr (map (\<lambda>i. \<lparr>id' = i, name = dynamic_name i, maxLength = 120000,
                           tokenLimit = 131072\<rparr>)
                  (take 5 (filter available_id (upstream_ids ms))))"
proof -
  let ?kept = "filter (\<lambda>m. available_id (the (upstream_id m))) ms"
  have "list_all (\<lambda>m. upstream_id m \<noteq> None) (take 5 ?kept)"
    using assms by (auto simp: list_all_iff dest: in_set_takeD)
  then have "availableModels (JArr ms) =
      Inr (map (\<lambda>m. \<lparr>id' = the (upstream_id m), name = dynamic_name (the (upstream_id m)),
                      maxLength = 120000, tokenLimit = 131072\<rparr>) (take 5 ?kept))"
    by (simp add: filter_available_string_ids [OF assms] map_dynamic_string_ids)
  also have "map (\<lambda>m. \<lparr>id' = the (upstream_id m), name = dynamic_name (the (upstream_id m)),
                      maxLength = 120000, tokenLimit = 131072\<rparr>) (take 5 ?kept) =
      map (\<lambda>i. \<lparr>id' = i, name = dynamic_name i, maxLength = 120000, tokenLimit = 131072\<rparr>)
        (take 5 (filter available_id (upstream_ids ms)))"
    by (simp add: upstream_ids_string_ids [OF assms] filter_map take_map comp_def)
  finally show ?thesis .
qed

lemma model_json_inj: "model_json a = model_json b \<Longrightarrow> a = b"
  by (simp add: model_json_def)

lemma stringify_inj: "stringify xs = stringify ys \<Longrightarrow> xs = ys"
proof -
  assume "stringify xs = stringify ys"
  then have "map model_json xs = map model_json ys" by (simp add: stringify_def)
  moreover have "inj model_json" by (rule injI) (rule model_json_inj)
  ultimately show "xs = ys" by (simp add: inj_map_eq_map)
qed

lemma is_models_array_stringify: "is_models_array (stringify models)"
  by (induction models)
    (simp_all add: is_models_array_def stringify_def is_model_object_def model_json_def)

lemma after_fetch_200:
  "after_fetch r = Inr response \<Longrightarrow> status response = 200 \<Longrightarrow>
   \<exists>models. body response = stringify models"
  by (auto simp: after_fetch_def split: if_splits sum.splits)

subsection \<open>Facts about the trimming loop\<close>

lemma token_count_rev: "token_count encode (rev xs) = token_count encode xs"
  by (simp add: token_count_def rev_map [symmetric])

text \<open>
  The loop visits a prefix of the list it is given (newest first) and stops in front of
  the first message that does not fit.
\<close>

lemma trim_loop_visited:
  "\<exists>visited unvisited.
     rest = visited @ unvisited \<and>
     trim_loop encode model rest tokenCount acc = rev visited @ acc \<and>
     (visited \<noteq> [] \<longrightarrow>
        int tokenCount + int (token_count encode visited) + 1000 \<le> tokenLimit model) \<and>
     (unvisited \<noteq> [] \<longrightarrow>
        tokenLimit model <
          int tokenCount + int (token_count encode (hd unvisited # visited)) + 1000)"
proof (induction rest arbitrary: tokenCount acc)
  case Nil
  show ?case by simp
next
  case (Cons message older)
  let ?n = "length (encode (content message))"
  show ?case
  proof (cases "int tokenCount + int ?n + 1000 > tokenLimit model")
    case True
    then have "trim_loop encode model (message # older) tokenCount acc = rev [] @ acc"
      by simp
    moreover have "tokenLimit model <
        int tokenCount + int (token_count encode (hd (message # older) # [])) + 1000"
      using True by (simp add: token_count_def)
    ultimately show ?thesis by (intro exI [of _ "[]"] exI [of _ "message # older"]) simp
  next
    case False
    from Cons.IH [of "tokenCount + ?n" "message # acc"]
    obtain visited unvisited where
      split: "older = visited @ unvisited" and
      res: "trim_loop encode model older (tokenCount + ?n) (message # acc) =
              rev visited @ message # acc" and
      fits: "visited \<noteq> [] \<longrightarrow>
              int (tokenCount + ?n) + int (token_count encode visited) + 1000
                \<le> tokenLimit model" and
      stop: "unvisited \<noteq> [] \<longrightarrow>
              tokenLimit model <
                int (tokenCount + ?n) + int (token_count encode (hd unvisited # visited)) + 1000"
      by blast
    have "message # older = (message # visited) @ unvisited" using split by simp
    moreover have "trim_loop encode model (message # older) tokenCount acc =
        rev (message # visited) @ acc"
      using False res by simp
    moreover have "int tokenCount + int (token_count encode (message # visited)) + 1000
        \<le> tokenLimit model"
      using False fits by (cases "visited = []") (simp_all add: token_count_def)
    moreover have "unvisited \<noteq> [] \<longrightarrow> tokenLimit model <
        int tokenCount + int (token_count encode (hd unvisited # message # visited)) + 1000"
      using stop by (cases "unvisited = []") (simp_all add: token_count_def)
    ultimately show ?thesis by blast
  qed
qed

subsection \<open>The claims\<close>

text \<open>
  C1. When the estimated token count of the message list, plus the count the scan
  starts from and the margin of 1000, exceeds the model's token limit, the messages kept
  are a suffix of the list: only the oldest are dropped, and the rest keep their order.
  Where the start count plus the margin is within the limit, at least one message is
  dropped, the kept suffix plus margin is within the limit, and the newest dropped message
  would not have fit. Where not even the margin is within the limit, nothing is kept.
\<close>

theorem trim_messages_drops_oldest:
  assumes "tokenLimit model < int tokenCount + int (token_count encode messages) + 1000"
  shows "\<exists>dropped.
           messages = dropped @ trim_messages encode model tokenCount messages \<and>
           (if int tokenCount + 1000 \<le> tokenLimit model
            then dropped \<noteq> [] \<and>
                 int tokenCount +
                   int (token_count encode (trim_messages encode model tokenCount messages)) +
                   1000 \<le> tokenLimit model \<and>
                 tokenLimit model <
                   int tokenCount +
                     int (token_count encode
                            (last dropped # trim_messages encode model tokenCount messages)) +
                     1000
            else trim_messages encode model tokenCount messages = [])"
proof -
  let ?kept = "trim_messages encode model tokenCount messages"
  have "\<exists>visited unvisited.
      rev messages = visited @ unvisited \<and> ?kept = rev visited \<and>
      (visited \<noteq> [] \<longrightarrow>
         int tokenCount + int (token_count encode visited) + 1000 \<le> tokenLimit model) \<and>
      (unvisited \<noteq> [] \<longrightarrow>
         tokenLimit model <
           int tokenCount + int (token_count encode (hd unvisited # visited)) + 1000)"
    using trim_loop_visited [of "rev messages" encode model tokenCount "[]"]
    by (simp add: trim_messages_def)
  then obtain visited unvisited where
    split: "rev messages = visited @ unvisited" and
    res: "?kept = rev visited" and
    fits: "visited \<noteq> [] \<longrightarrow>
            int tokenCount + int (token_count encode visited) + 1000 \<le> tokenLimit model" and
    stop: "unvisited \<noteq> [] \<longrightarrow>
            tokenLimit model <
              int tokenCount + int (token_count encode (hd unvisited # visited)) + 1000"
    by blast
  let ?dropped = "rev unvisited"
  have msgs: "messages = ?dropped @ ?kept"
    using split res by (metis rev_append rev_rev_ident)
  have stop': "?dropped \<noteq> [] \<longrightarrow> tokenLimit model <
      int tokenCount + int (token_count encode (last ?dropped # ?kept)) + 1000"
    using stop
    by (auto simp: token_count_def res last_rev rev_map [symmetric] simp del: rev_map)
  show ?thesis
  proof (cases "int tokenCount + 1000 \<le> tokenLimit model")
    case True
    have fits': "int tokenCount + int (token_count encode ?kept) + 1000 \<le> tokenLimit model"
    proof (cases "visited = []")
      case True
      with \<open>int tokenCount + 1000 \<le> tokenLimit model\<close> show ?thesis
        by (simp add: res token_count_def)
    next
      case False
      with fits show ?thesis by (simp add: res token_count_rev)
    qed
    have "?dropped \<noteq> []"
    proof
      assume "?dropped = []"
      then have "messages = ?kept" using msgs by simp
      with fits' assms show False by simp
    qed
    with True msgs fits' stop' show ?thesis by auto
  next
    case False
    have "visited = []"
    proof (rule ccontr)
      assume "visited \<noteq> []"
      with fits have "int tokenCount + int (token_count encode visited) + 1000
          \<le> tokenLimit model"
        by simp
      with False show False by simp
    qed
    with False msgs res show ?thesis by auto
  qed
qed

theorem trim_messages_drops_oldest_witness:
  "tokenLimit (OpenAIModels GPT_3_5) <
     int 2985 +
       int (token_count (\<lambda>s. s)
              [\<lparr>role = ''user'', content = ''hello there''\<rparr>,
               \<lparr>role = ''assistant'', content = ''hi''\<rparr>,
               \<lparr>role = ''user'', content = ''thanks''\<rparr>]) + 1000 \<and>
   trim_messages (\<lambda>s. s) (OpenAIModels GPT_3_5) 2985
     [\<lparr>role = ''user'', content = ''hello there''\<rparr>,
      \<lparr>role = ''assistant'', content = ''hi''\<rparr>,
      \<lparr>role = ''user'', content = ''thanks''\<rparr>] =
     [\<lparr>role = ''assistant'', content = ''hi''\<rparr>, \<lparr>role = ''user'', content = ''thanks''\<rparr>] \<and>
   (\<exists>dropped.
      [\<lparr>role = ''user'', content = ''hello there''\<rparr>,
       \<lparr>role = ''assistant'', content = ''hi''\<rparr>,
       \<lparr>role = ''user'', content = ''thanks''\<rparr>] =
        dropped @ [\<lparr>role = ''assistant'', content = ''hi''\<rparr>,
                   \<lparr>role = ''user'', content = ''thanks''\<rparr>] \<and>
      dropped \<noteq> [] \<and>
      int 2985 +
        int (token_count (\<lambda>s. s)
               [\<lparr>role = ''assistant'', content = ''hi''\<rparr>,
                \<lparr>role = ''user'', content = ''thanks''\<rparr>]) + 1000
        \<le> tokenLimit (OpenAIModels GPT_3_5))"
proof -
  let ?ms = "[\<lparr>role = ''user'', content = ''hello there''\<rparr>,
              \<lparr>role = ''assistant'', content = ''hi''\<rparr>,
              \<lparr>role = ''user'', content = ''thanks''\<rparr>]"
  have over: "tokenLimit (OpenAIModels GPT_3_5) <
      int 2985 + int (token_count (\<lambda>s. s) ?ms) + 1000"
    by (simp add: token_count_def)
  have kept: "trim_messages (\<lambda>s. s) (OpenAIModels GPT_3_5) 2985 ?ms =
      [\<lparr>role = ''assistant'', content = ''hi''\<rparr>, \<lparr>role = ''user'', content = ''thanks''\<rparr>]"
    by (simp add: trim_messages_def)
  have margin: "int 2985 + 1000 \<le> tokenLimit (OpenAIModels GPT_3_5)"
    by simp
  from trim_messages_drops_oldest [OF over] over kept margin show ?thesis
    by (auto simp del: OpenAIModels.simps)
qed

text \<open>
  C2. When the upstream call of the models handler throws, that is the fetch is rejected
  or the upstream answers with a status other than 200 and 401, the response body is the
  fallback list of three models, with their fixed names and limits, and the status is 200.
\<close>

theorem models_fallback_on_throw:
  assumes "fetch (models_request env key) = Inl e \<or>
           (\<exists>r. fetch (models_request env key) = Inr r \<and> status r \<noteq> 200 \<and> status r \<noteq> 401)"
  shows "snd (handler env fetch (Inr key)) =
           \<lparr>status = 200, statusText = [], headers = [],
            body = JsonText (JArr
              [JObj [(''id'', JStr ''llama-3.1-8b-instant''),
                     (''name'', JStr ''Llama 3.1 8B (Fast)''),
                     (''maxLength'', JNum 120000), (''tokenLimit'', JNum 131072)],
               JObj [(''id'', JStr ''llama-3.3-70b-versatile''),
                     (''name'', JStr ''Llama 3.3 70B (Powerful)''),
                     (''maxLength'', JNum 120000), (''tokenLimit'', JNum 131072)],
               JObj [(''id'', JStr ''gemma2-9b-it''), (''name'', JStr ''Gemma 2 9B''),
                     (''maxLength'', JNum 24000), (''tokenLimit'', JNum 8192)]])\<rparr>"
  using assms
  by (auto simp: handler_def try_block_def after_fetch_def stringify_def fallbackModels_def
      model_json_def)

theorem models_fallback_on_throw_witness:
  "always (Inr \<lparr>status = 503, statusText = ''Service Unavailable'', headers = [],
                body = RawText ''busy''\<rparr>) (models_request Map.empty (Some ''gsk_1'')) =
     Inr \<lparr>status = 503, statusText = ''Service Unavailable'', headers = [],
          body = RawText ''busy''\<rparr> \<and>
   snd (handler Map.empty
          (always (Inr \<lparr>status = 503, statusText = ''Service Unavailable'', headers = [],
                        body = RawText ''busy''\<rparr>))
          (Inr (Some ''gsk_1''))) =
           \<lparr>status = 200, statusText = [], headers = [],
            body = JsonText (JArr
              [JObj [(''id'', JStr ''llama-3.1-8b-instant''),
                     (''name'', JStr ''Llama 3.1 8B (Fast)''),
                     (''maxLength'', JNum 120000), (''tokenLimit'', JNum 131072)],
               JObj [(''id'', JStr ''llama-3.3-70b-versatile''),
                     (''name'', JStr ''Llama 3.3 70B (Powerful)''),
                     (''maxLength'', JNum 120000), (''tokenLimit'', JNum 131072)],
               JObj [(''id'', JStr ''gemma2-9b-it''), (''name'', JStr ''Gemma 2 9B''),
                     (''maxLength'', JNum 24000), (''tokenLimit'', JNum 8192)]])\<rparr>"
proof -
  let ?r = "\<lparr>status = 503, statusText = ''Service Unavailable'', headers = [],
             body = RawText ''busy''\<rparr>"
  have h: "always (Inr ?r) (models_request Map.empty (Some ''gsk_1'')) = Inr ?r"
    by (simp add: always_def)
  then have "\<exists>r. always (Inr ?r) (models_request Map.empty (Some ''gsk_1'')) = Inr r \<and>
      status r \<noteq> 200 \<and> status r \<noteq> 401"
    by simp
  then show ?thesis
    using h models_fallback_on_throw [of "always (Inr ?r)" Map.empty "Some ''gsk_1''"]
    by blast
qed




text \<open>
  C4, as amended. When the upstream answers the models handler with 401, the response has
  status 500, and the headers and the body of the upstream response.
\<close>

theorem models_401_answered_500:
  assumes "fetch (models_request env key) = Inr r" and "status r = 401"
  shows "snd (handler env fetch (Inr key)) =
           \<lparr>status = 500, statusText = [], headers = headers r, body = body r\<rparr>"
  using assms by (simp add: handler_def try_block_def after_fetch_def)

theorem models_401_answered_500_witness:
  "snd (handler Map.empty
         (always (Inr \<lparr>status = 401, statusText = ''Unauthorized'',
            headers = [(''content-type'', ''application/json'')],
            body = RawText ''invalid api key''\<rparr>))
         (Inr (Some ''gsk_bad''))) =
     \<lparr>status = 500, statusText = [], headers = [(''content-type'', ''application/json'')],
      body = RawText ''invalid api key''\<rparr>"
  using models_401_answered_500 [of
      "always (Inr \<lparr>status = 401, statusText = ''Unauthorized'',
          headers = [(''content-type'', ''application/json'')],
          body = RawText ''invalid api key''\<rparr>)"
      Map.empty "Some ''gsk_bad''"]
  by (simp add: always_def)

text \<open>C4 as stated fails: an upstream 401 is not answered with status 401.\<close>

theorem models_401_status_counterexample:
  "status (snd (handler unset_env
      (always (Inr \<lparr>status = 401, statusText = ''Unauthorized'', headers = [],
                    body = RawText ''invalid api key''\<rparr>))
      (Inr (Some ''gsk_bad'')))) = 500 \<and>
   status (snd (handler unset_env
      (always (Inr \<lparr>status = 401, statusText = ''Unauthorized'', headers = [],
                    body = RawText ''invalid api key''\<rparr>))
      (Inr (Some ''gsk_bad'')))) \<noteq> 401"
  by (simp add: handler_def try_block_def after_fetch_def always_def unset_env_def)

text \<open>
  C5, as amended. When the upstream call of the models handler fails, that is the fetch
  is rejected or the upstream answers with a status other than 200 and 401, the handler
  answers with status 200, not 500, and with the list of the three fallback models as
  body.
\<close>

theorem upstream_failure_status:
  assumes "fetch (models_request env key) = Inl e \<or>
           (\<exists>r. fetch (models_request env key) = Inr r \<and> status r \<noteq> 200 \<and> status r \<noteq> 401)"
  shows "status (snd (handler env fetch (Inr key))) = 200 \<and>
         status (snd (handler env fetch (Inr key))) \<noteq> 500 \<and>
         body (snd (handler env fetch (Inr key))) =
           stringify
             [\<lparr>id' = ''llama-3.1-8b-instant'', name = ''Llama 3.1 8B (Fast)'',
               maxLength = 120000, tokenLimit = 131072\<rparr>,
              \<lparr>id' = ''llama-3.3-70b-versatile'', name = ''Llama 3.3 70B (Powerful)'',
               maxLength = 120000, tokenLimit = 131072\<rparr>,
              \<lparr>id' = ''gemma2-9b-it'', name = ''Gemma 2 9B'',
               maxLength = 24000, tokenLimit = 8192\<rparr>]"
proof -
  from assms have
    "\<exists>e'. try_block env fetch (Inr key) = ([models_request env key], Inl e')"
    by (auto simp: try_block_def after_fetch_def)
  then obtain e' where "try_block env fetch (Inr key) = ([models_request env key], Inl e')"
    by blast
  then have "snd (handler env fetch (Inr key)) =
      \<lparr>status = 200, statusText = [], headers = [], body = stringify fallbackModels\<rparr>"
    by (simp add: handler_def)
  then show ?thesis by (simp add: fallbackModels_def)
qed

theorem upstream_failure_status_witness:
  "always (Inl NetworkError) (models_request unset_env (Some ''gsk_1'')) = Inl NetworkError \<and>
   status (snd (handler unset_env (always (Inl NetworkError)) (Inr (Some ''gsk_1'')))) = 200 \<and>
   body (snd (handler unset_env (always (Inl NetworkError)) (Inr (Some ''gsk_1'')))) =
     stringify
       [\<lparr>id' = ''llama-3.1-8b-instant'', name = ''Llama 3.1 8B (Fast)'',
         maxLength = 120000, tokenLimit = 131072\<rparr>,
        \<lparr>id' = ''llama-3.3-70b-versatile'', name = ''Llama 3.3 70B (Powerful)'',
         maxLength = 120000, tokenLimit = 131072\<rparr>,
        \<lparr>id' = ''gemma2-9b-it'', name = ''Gemma 2 9B'',
         maxLength = 24000, tokenLimit = 8192\<rparr>]"
proof -
  have 1: "always (Inl NetworkError) (models_request unset_env (Some ''gsk_1'')) =
      Inl NetworkError"
    by (simp add: always_def)
  then have "always (Inl NetworkError) (models_request unset_env (Some ''gsk_1'')) =
      Inl NetworkError \<or>
      (\<exists>r. always (Inl NetworkError) (models_request unset_env (Some ''gsk_1'')) = Inr r \<and>
           status r \<noteq> 200 \<and> status r \<noteq> 401)"
    by simp
  from upstream_failure_status
    [where fetch = "always (Inl NetworkError)" and env = unset_env and key = "Some ''gsk_1''"
       and e = NetworkError, OF this] 1
  show ?thesis by simp
qed

text \<open>C5 as stated fails: the models handler answers a rejected fetch with status 200.\<close>

theorem upstream_failure_status_counterexample:
  "status (snd (handler unset_env (always (Inl NetworkError)) (Inr (Some ''gsk_1'')))) = 200 \<and>
   status (snd (handler unset_env (always (Inl NetworkError)) (Inr (Some ''gsk_1'')))) \<noteq> 500"
  by (simp add: handler_def try_block_def always_def unset_env_def)

text \<open>
  C7. Every response of the models handler with status 200, which are the responses of
  the success, the dynamic and the fallback path, has as body a JSON array whose elements
  are objects with exactly the members id and name (strings), maxLength and tokenLimit
  (numbers). The only other response is the relay of an upstream 401.
\<close>

theorem models_body_shape:
  "(status (snd (handler env fetch req)) = 200 \<longrightarrow>
      is_models_array (body (snd (handler env fetch req)))) \<and>
   (status (snd (handler env fetch req)) \<noteq> 200 \<longrightarrow>
      (\<exists>key r. req = Inr key \<and> fetch (models_request env key) = Inr r \<and> status r = 401 \<and>
         snd (handler env fetch req) =
           \<lparr>status = 500, statusText = [], headers = headers r, body = body r\<rparr>))"
proof (cases "try_block env fetch req")
  case (Pair sent res)
  show ?thesis
  proof (cases res)
    case (Inl e)
    with Pair show ?thesis
      by (simp add: handler_def is_models_array_stringify)
  next
    case (Inr response)
    with Pair have h: "snd (handler env fetch req) = response"
      by (simp add: handler_def)
    from Pair Inr obtain key r where
      req: "req = Inr key" and r: "fetch (models_request env key) = Inr r" and
      af: "after_fetch r = Inr response"
      by (auto simp: try_block_def split: sum.splits)
    have "is_models_array (body response)" if "status response = 200"
    proof -
      from af that obtain models where "body response = stringify models"
        using after_fetch_200 by blast
      then show ?thesis by (simp add: is_models_array_stringify)
    qed
    moreover have "status r = 401 \<and>
        response = \<lparr>status = 500, statusText = [], headers = headers r, body = body r\<rparr>"
      if "status response \<noteq> 200"
      using af that by (auto simp: after_fetch_def split: if_splits sum.splits)
    ultimately show ?thesis unfolding h using req r by blast
  qed
qed

theorem models_body_shape_witness:
  "status (snd (handler Map.empty
     (always (Inr \<lparr>status = 200, statusText = ''OK'', headers = [],
        body = JsonText (JArr [JObj [(''id'', JStr ''gemma-7b-it'')]])\<rparr>))
     (Inr None))) = 200 \<and>
   is_models_array (body (snd (handler Map.empty
     (always (Inr \<lparr>status = 200, statusText = ''OK'', headers = [],
        body = JsonText (JArr [JObj [(''id'', JStr ''gemma-7b-it'')]])\<rparr>))
     (Inr None))))"
proof -
  have h: "status (snd (handler Map.empty
     (always (Inr \<lparr>status = 200, statusText = ''OK'', headers = [],
        body = JsonText (JArr [JObj [(''id'', JStr ''gemma-7b-it'')]])\<rparr>))
     (Inr None))) = 200"
    by code_simp
  from h models_body_shape
    [of Map.empty
      "always (Inr \<lparr>status = 200, statusText = ''OK'', headers = [],
         body = JsonText (JArr [JObj [(''id'', JStr ''gemma-7b-it'')]])\<rparr>)"
      "Inr None"]
  show ?thesis by blast
qed

text \<open>
  C9, as amended. When the upstream answers 200 with a list whose entries all carry a
  string id, none of them an id of the table, the response has status 200 and holds the
  first five, at most, of the upstream ids that contain llama, gemma, compound or gpt, in
  upstream order, each with maxLength 120000 and tokenLimit 131072; it is not the fallback
  list, and it is the empty array when no upstream id contains one of the four substrings.
\<close>

theorem models_dynamic_branch:
  assumes "fetch (models_request env key) = Inr response"
    and "status response = 200"
    and "body response = JsonText json"
    and "modelsData json = Inr (JArr ms)"
    and "list_all (\<lambda>m. upstream_id m \<noteq> None) ms"
    and "\<forall>v. OpenAIModelID_value v \<notin> set (upstream_ids ms)"
  shows "\<exists>models.
           snd (handler env fetch (Inr key)) =
             \<lparr>status = 200, statusText = [], headers = [], body = stringify models\<rparr> \<and>
           models = map (\<lambda>i. \<lparr>id' = i, name = dynamic_name i, maxLength = 120000,
                               tokenLimit = 131072\<rparr>)
                      (take 5 (filter available_id (upstream_ids ms))) \<and>
           length models \<le> 5 \<and>
           stringify models \<noteq> stringify fallbackModels \<and>
           ((\<forall>i \<in> set (upstream_ids ms). \<not> available_id i) \<longrightarrow> models = [])"
proof -
  let ?dyn = "\<lambda>i. \<lparr>id' = i, name = dynamic_name i, maxLength = 120000, tokenLimit = 131072\<rparr>"
  let ?models = "map ?dyn (take 5 (filter available_id (upstream_ids ms)))"
  have pre: "predefined (JArr ms) OpenAIModelID_entries [] = Inr []"
    using assms(6) by (simp add: predefined_upstream_ids [OF string_ids_not_null [OF assms(5)]])
  have "collect_models (JArr ms) = Inr ?models"
    by (simp add: collect_models_def pre availableModels_string_ids [OF assms(5)]
        del: availableModels.simps)
  then have resp: "snd (handler env fetch (Inr key)) =
      \<lparr>status = 200, statusText = [], headers = [], body = stringify ?models\<rparr>"
    using assms(1-4) by (simp add: handler_def try_block_def after_fetch_def)
  have ids: "id' ` set ?models \<subseteq> set (upstream_ids ms)"
    by (auto dest: in_set_takeD)
  have "stringify ?models \<noteq> stringify fallbackModels"
  proof
    assume "stringify ?models = stringify fallbackModels"
    then have "?models = fallbackModels" by (rule stringify_inj)
    then have "''llama-3.1-8b-instant'' \<in> id' ` set ?models"
      by (simp add: fallbackModels_def)
    with ids have "OpenAIModelID_value LLAMA_3_1_8B \<in> set (upstream_ids ms)" by auto
    with assms(6) show False by blast
  qed
  moreover have "(\<forall>i \<in> set (upstream_ids ms). \<not> available_id i) \<longrightarrow> ?models = []"
    by (simp add: filter_False)
  moreover have "length ?models \<le> 5" by simp
  ultimately show ?thesis using resp by blast
qed

theorem models_dynamic_branch_witness:
  "snd (handler Map.empty
      (always (Inr \<lparr>status = 200, statusText = ''OK'', headers = [],
         body = JsonText (JObj [(''data'',
           JArr [JObj [(''id'', JStr ''llama-guard-3-8b'')],
                 JObj [(''id'', JStr ''whisper-large-v3'')],
                 JObj [(''id'', JStr ''openai/gpt-oss-20b'')]])])\<rparr>))
      (Inr None)) =
     \<lparr>status = 200, statusText = [], headers = [],
      body = stringify
        [\<lparr>id' = ''llama-guard-3-8b'', name = ''Llama Guard 3 8b'',
          maxLength = 120000, tokenLimit = 131072\<rparr>,
         \<lparr>id' = ''openai/gpt-oss-20b'', name = ''Openai/Gpt Oss 20b'',
          maxLength = 120000, tokenLimit = 131072\<rparr>]\<rparr>"
proof -
  let ?ms = "[JObj [(''id'', JStr ''llama-guard-3-8b'')], JObj [(''id'', JStr ''whisper-large-v3'')],
              JObj [(''id'', JStr ''openai/gpt-oss-20b'')]]"
  let ?response = "\<lparr>status = 200, statusText = ''OK'', headers = [],
                    body = JsonText (JObj [(''data'', JArr ?ms)])\<rparr>"
  have ids: "upstream_ids ?ms =
      [''llama-guard-3-8b'', ''whisper-large-v3'', ''openai/gpt-oss-20b'']"
    by (simp add: upstream_ids_def upstream_id_def)
  have none: "\<forall>v. OpenAIModelID_value v \<notin> set (upstream_ids ?ms)"
    unfolding ids by (rule allI) (case_tac v; simp)
  have all: "list_all (\<lambda>m. upstream_id m \<noteq> None) ?ms"
    by (simp add: upstream_id_def)
  have a1: "available_id ''llama-guard-3-8b''" by code_simp
  have a2: "\<not> available_id ''whisper-large-v3''" by code_simp
  have a3: "available_id ''openai/gpt-oss-20b''" by code_simp
  have n1: "dynamic_name ''llama-guard-3-8b'' = ''Llama Guard 3 8b''" by code_simp
  have n2: "dynamic_name ''openai/gpt-oss-20b'' = ''Openai/Gpt Oss 20b''" by code_simp
  from models_dynamic_branch [of "always (Inr ?response)" Map.empty None ?response
      "JObj [(''data'', JArr ?ms)]" ?ms, OF _ _ _ _ all none]
  show ?thesis
    by (simp add: always_def modelsData_def ids a1 a2 a3 n1 n2)
qed

text \<open>
  C9 as stated fails: an upstream list that holds no id of the table and has an entry
  without an id is answered with the fallback list, since reading \<^verbatim>\<open>includes\<close> from the
  missing id throws and the \<^verbatim>\<open>catch\<close> block answers.
\<close>

theorem models_dynamic_branch_counterexample:
  "snd (handler unset_env
      (always (Inr \<lparr>status = 200, statusText = ''OK'', headers = [],
         body = JsonText (JObj [(''data'',
           JArr [JObj [(''id'', JStr ''llama-x'')], JObj []])])\<rparr>))
      (Inr (Some ''gsk_1''))) =
     \<lparr>status = 200, statusText = [], headers = [],
      body = stringify
        [\<lparr>id' = ''llama-3.1-8b-instant'', name = ''Llama 3.1 8B (Fast)'',
          maxLength = 120000, tokenLimit = 131072\<rparr>,
         \<lparr>id' = ''llama-3.3-70b-versatile'', name = ''Llama 3.3 70B (Powerful)'',
          maxLength = 120000, tokenLimit = 131072\<rparr>,
         \<lparr>id' = ''gemma2-9b-it'', name = ''Gemma 2 9B'',
          maxLength = 24000, tokenLimit = 8192\<rparr>]\<rparr> \<and>
   upstream_ids [JObj [(''id'', JStr ''llama-x'')], JObj []] = [''llama-x''] \<and>
   ''llama-x'' \<notin> set (map OpenAIModelID_value OpenAIModelID_entries)"
  by code_simp

text \<open>
  C10. Every request the models handler sends upstream carries an Authorization header
  that starts with Bearer. A request whose body is read sends exactly one request
  upstream, whatever its key: Bearer is followed by the key of the body when that key is a
  non-empty string, and by the value of OPENAI_API_KEY (written undefined when the
  variable is not set) when the key is missing or empty.
\<close>

theorem models_request_authorization:
  "(\<forall>q \<in> set (fst (handler env fetch req)).
      \<exists>token. map_of (request_headers q) ''Authorization'' = Some (''Bearer '' @ token)) \<and>
   fst (handler env fetch (Inr key)) = [models_request env key] \<and>
   map_of (request_headers (models_request env key)) ''Authorization'' =
     Some (''Bearer '' @
       (case key of
          Some k \<Rightarrow>
            if k = [] then (case env ''OPENAI_API_KEY'' of None \<Rightarrow> ''undefined'' | Some k' \<Rightarrow> k')
            else k
        | None \<Rightarrow> (case env ''OPENAI_API_KEY'' of None \<Rightarrow> ''undefined'' | Some k' \<Rightarrow> k')))"
proof (intro conjI)
  show "\<forall>q \<in> set (fst (handler env fetch req)).
      \<exists>token. map_of (request_headers q) ''Authorization'' = Some (''Bearer '' @ token)"
    by (cases req)
      (auto simp: handler_def try_block_def models_request_def bearer_def
        split: sum.splits prod.splits)
next
  show "fst (handler env fetch (Inr key)) = [models_request env key]"
    by (simp add: handler_def try_block_def split: sum.splits prod.splits)
next
  show "map_of (request_headers (models_request env key)) ''Authorization'' =
     Some (''Bearer '' @
       (case key of
          Some k \<Rightarrow>
            if k = [] then (case env ''OPENAI_API_KEY'' of None \<Rightarrow> ''undefined'' | Some k' \<Rightarrow> k')
            else k
        | None \<Rightarrow> (case env ''OPENAI_API_KEY'' of None \<Rightarrow> ''undefined'' | Some k' \<Rightarrow> k')))"
    by (auto simp: models_request_def bearer_def split: option.splits)
qed

theorem models_request_authorization_witness:
  "fst (handler [''OPENAI_API_KEY'' \<mapsto> ''gsk_env''] (always (Inl NetworkError)) (Inr (Some []))) =
     [\<lparr>url = ''https://api.openai.com/v1/models'',
       request_headers = [(''Content-Type'', ''application/json''),
                          (''Authorization'', ''Bearer gsk_env'')]\<rparr>] \<and>
   map_of (request_headers (models_request [''OPENAI_API_KEY'' \<mapsto> ''gsk_env''] (Some [])))
     ''Authorization'' = Some ''Bearer gsk_env''"
  using models_request_authorization
    [of "[''OPENAI_API_KEY'' \<mapsto> ''gsk_env'']" "always (Inl NetworkError)" "Inr (Some [])"
      "Some []"]
  by (simp add: models_request_def bearer_def OPENAI_API_HOST_def)

end
